theory Spec2Isabelle
  imports Main
begin

section \<open>Progress percentages\<close>

text \<open>
  Every roll-up site of \<^verbatim>\<open>courses/views.py\<close> computes its percentage with the
  same expression,
  \<^verbatim>\<open>int((completed / total) * 100) if total > 0 else 0\<close>,
  on two row counts. In Python \<^verbatim>\<open>/\<close> on two ints is true division: its value is
  the binary64 number nearest to the exact quotient, ties going to the even
  significand. The product with \<^verbatim>\<open>100\<close> is a binary64 multiplication, rounded in
  the same way, and \<^verbatim>\<open>int\<close> drops the fractional part.

  A finite non-negative binary64 number is written here as a pair \<open>(m, e)\<close> that
  stands for \<open>m * 2 ^ e\<close>, the significand \<open>m\<close> having at most 53 bits. The
  exponent is not bounded: the model is exact wherever the value is in the normal
  range of binary64, which is where every quotient of two row counts lies.
\<close>

type_synonym double = "nat \<times> int"

fun bit_length :: "nat \<Rightarrow> nat" where
  "bit_length n = (if n = 0 then 0 else Suc (bit_length (n div 2)))"

declare bit_length.simps [simp del]

text \<open>The fraction \<open>n / d\<close> divided by \<open>2 ^ e\<close>, again as a fraction.\<close>

definition scale :: "nat \<Rightarrow> nat \<Rightarrow> int \<Rightarrow> nat \<times> nat" where
  "scale n d e = (if 0 \<le> e then (n, d * 2 ^ nat e) else (n * 2 ^ nat (- e), d))"

text \<open>The integer nearest to \<open>n / d\<close>, a tie going to the even neighbour.\<close>

definition round_half_even :: "nat \<Rightarrow> nat \<Rightarrow> nat" where
  "round_half_even n d =
     (let q = n div d; r = n mod d
      in if 2 * r < d then q
         else if d < 2 * r then q + 1
         else if even q then q else q + 1)"

text \<open>
  The binary64 number nearest to \<open>n / d\<close> (for \<open>d > 0\<close>): the exponent \<open>e\<close> is
  chosen so that \<open>n / d / 2 ^ e\<close> lies in \<open>[2 ^ 52, 2 ^ 53)\<close>, and the scaled
  quotient is rounded to an integer significand.
\<close>

definition nearest_double :: "nat \<Rightarrow> nat \<Rightarrow> double" where
  "nearest_double n d =
     (if n = 0 then (0, 0)
      else
        let e1 = int (bit_length n) - int (bit_length d) - 52;
            e = (if fst (scale n d e1) < 2 ^ 52 * snd (scale n d e1) then e1 - 1 else e1)
        in (round_half_even (fst (scale n d e)) (snd (scale n d e)), e))"

text \<open>\<^verbatim>\<open>a / b\<close> on two non-negative ints, \<open>b\<close> not zero.\<close>

definition py_truediv :: "nat \<Rightarrow> nat \<Rightarrow> double" where
  "py_truediv a b = nearest_double a b"

text \<open>\<^verbatim>\<open>x * k\<close> for a double \<open>x\<close> and a small int \<open>k\<close> (one that binary64 holds exactly).\<close>

definition py_mul :: "double \<Rightarrow> nat \<Rightarrow> double" where
  "py_mul x k =
     nearest_double (fst (scale (fst x * k) 1 (- snd x))) (snd (scale (fst x * k) 1 (- snd x)))"

text \<open>\<^verbatim>\<open>int(x)\<close> for a non-negative double: the integer part.\<close>

definition py_int :: "double \<Rightarrow> nat" where
  "py_int x = fst (scale (fst x) 1 (- snd x)) div snd (scale (fst x) 1 (- snd x))"

text \<open>
  \<^verbatim>\<open>int((completed / total) * 100) if total > 0 else 0\<close>
  (views.py, lines 174, 509, 594, 610, 1026 and 1035).
\<close>

definition percentage :: "nat \<Rightarrow> nat \<Rightarrow> nat" where
  "percentage n_completed n_total =
     (if n_total > 0 then py_int (py_mul (py_truediv n_completed n_total) 100) else 0)"

section \<open>Data model\<close>

text \<open>
  The tables of \<^verbatim>\<open>courses/models.py\<close> that the progress ledger and the checkout
  read or write. A table is the list of its rows; a row keeps the columns that the
  modelled views read. Primary keys and timestamps are natural numbers.
\<close>

type_synonym pk = nat
type_synonym datetime = nat

text \<open>
  \<^verbatim>\<open>Course\<close>: \<^verbatim>\<open>price\<close> is a \<^verbatim>\<open>DecimalField\<close> with two decimal places, kept here as
  an amount in hundredths.
\<close>

record course =
  course_pk :: pk
  price :: int
  is_free :: bool
  course_is_published :: bool

record module_row =
  module_pk :: pk
  module_course :: pk

text \<open>
  \<^verbatim>\<open>Lesson\<close>: the foreign key \<^verbatim>\<open>module\<close> is followed as the ORM does
  (\<^verbatim>\<open>lesson.module\<close>, \<^verbatim>\<open>lesson.module.course\<close>), so the row carries its module.
\<close>

record lesson =
  lesson_pk :: pk
  lesson_module :: module_row
  lesson_is_published :: bool

record enrollment =
  enrollment_user :: pk
  enrollment_course :: pk

text \<open>\<^verbatim>\<open>Progress\<close>, with \<^verbatim>\<open>unique_together = ['user', 'lesson']\<close>.\<close>

record progress =
  progress_user :: pk
  progress_lesson :: pk
  completed :: bool
  completed_at :: "datetime option"

datatype order_status = New | Paid | Delivering

record order_row =
  order_pk :: pk
  order_user :: pk
  status :: order_status

record order_item =
  item_order :: pk
  item_course :: pk
  item_price :: int

text \<open>The database together with the session's cart (\<^verbatim>\<open>request.session['cart']\<close>).\<close>

record db =
  course_tbl :: "course list"
  lesson_tbl :: "lesson list"
  enrollment_tbl :: "enrollment list"
  progress_tbl :: "progress list"
  order_tbl :: "order_row list"
  order_item_tbl :: "order_item list"
  session_cart :: "pk list"

section \<open>The progress ledger\<close>

subsection \<open>\<^verbatim>\<open>Progress.save\<close> (models.py, lines 443 to 448)\<close>

text \<open>
  \<^verbatim>\<open>
  def save(self, *args, **kwargs):
      if self.completed and not self.completed_at:
          self.completed_at = timezone.now()
      elif not self.completed:
          self.completed_at = None
      super().save(*args, **kwargs)
  \<close>
  The function below is the change made to the object; \<open>now\<close> is the value of
  \<^verbatim>\<open>timezone.now()\<close>. Writing the row is \<open>insert_progress\<close> or \<open>update_progress\<close>.
\<close>

definition save :: "datetime \<Rightarrow> progress \<Rightarrow> progress" where
  "save now p =
     (if completed p \<and> completed_at p = None then p\<lparr>completed_at := Some now\<rparr>
      else if \<not> completed p then p\<lparr>completed_at := None\<rparr>
      else p)"

definition is_row :: "pk \<Rightarrow> pk \<Rightarrow> progress \<Rightarrow> bool" where
  "is_row u l p = (progress_user p = u \<and> progress_lesson p = l)"

text \<open>The row of a user and a lesson; the uniqueness constraint leaves at most one.\<close>

definition get_progress :: "progress list \<Rightarrow> pk \<Rightarrow> pk \<Rightarrow> progress option" where
  "get_progress tbl u l = find (is_row u l) tbl"

definition insert_progress :: "progress \<Rightarrow> progress list \<Rightarrow> progress list" where
  "insert_progress p tbl = tbl @ [p]"

text \<open>The \<^verbatim>\<open>UPDATE\<close> of a saved object: its row is replaced, the others stay.\<close>

fun update_progress :: "progress \<Rightarrow> progress list \<Rightarrow> progress list" where
  "update_progress p [] = []"
| "update_progress p (q # qs) =
     (if is_row (progress_user p) (progress_lesson p) q then p # qs
      else q # update_progress p qs)"

subsection \<open>Roll-ups\<close>

definition get_lesson :: "db \<Rightarrow> pk \<Rightarrow> lesson option" where
  "get_lesson s k = find (\<lambda>l. lesson_pk l = k) (lesson_tbl s)"

text \<open>The joins \<^verbatim>\<open>lesson__module=module\<close> and \<^verbatim>\<open>lesson__module__course=course\<close>.\<close>

definition lesson_in_module :: "db \<Rightarrow> pk \<Rightarrow> pk \<Rightarrow> bool" where
  "lesson_in_module s k m =
     (case get_lesson s k of None \<Rightarrow> False | Some l \<Rightarrow> module_pk (lesson_module l) = m)"

definition lesson_in_course :: "db \<Rightarrow> pk \<Rightarrow> pk \<Rightarrow> bool" where
  "lesson_in_course s k c =
     (case get_lesson s k of None \<Rightarrow> False | Some l \<Rightarrow> module_course (lesson_module l) = c)"

text \<open>
  \<^verbatim>\<open>Progress.objects.filter(user=request.user, lesson__module=module, completed=True).count()\<close>
\<close>

definition module_completed :: "db \<Rightarrow> pk \<Rightarrow> pk \<Rightarrow> nat" where
  "module_completed s u m =
     length [p \<leftarrow> progress_tbl s.
               progress_user p = u \<and> lesson_in_module s (progress_lesson p) m \<and> completed p]"

text \<open>\<^verbatim>\<open>module.lessons.count()\<close>\<close>

definition module_total :: "db \<Rightarrow> pk \<Rightarrow> nat" where
  "module_total s m = length [l \<leftarrow> lesson_tbl s. module_pk (lesson_module l) = m]"

text \<open>
  \<^verbatim>\<open>Progress.objects.filter(user=request.user, lesson__module__course=course, completed=True).count()\<close>
\<close>

definition course_completed :: "db \<Rightarrow> pk \<Rightarrow> pk \<Rightarrow> nat" where
  "course_completed s u c =
     length [p \<leftarrow> progress_tbl s.
               progress_user p = u \<and> lesson_in_course s (progress_lesson p) c \<and> completed p]"

text \<open>\<^verbatim>\<open>Lesson.objects.filter(module__course=course).count()\<close>\<close>

definition course_total :: "db \<Rightarrow> pk \<Rightarrow> nat" where
  "course_total s c = length [l \<leftarrow> lesson_tbl s. module_course (lesson_module l) = c]"

subsection \<open>\<^verbatim>\<open>MarkLessonCompletedView\<close> (views.py, lines 978 to 1048)\<close>

datatype user = AnonymousUser | User pk

text \<open>
  The request: its user, and the two POST parameters. \<open>post_lesson_id\<close> is the posted
  \<^verbatim>\<open>lesson_id\<close> read as a primary key, \<open>None\<close> when the parameter is absent or empty
  (both make \<^verbatim>\<open>not lesson_id\<close> true). \<open>post_completed\<close> is the posted string.
\<close>

record request =
  request_user :: user
  post_lesson_id :: "pk option"
  post_completed :: "string option"

datatype error_text = Lesson_id_missing | Authorization_required | Not_enrolled

datatype message = Marked_completed | Marked_not_completed

record toggle_json =
  json_completed :: bool
  json_completed_at :: "datetime option"
  json_module_progress :: nat
  json_course_progress :: nat
  json_module_completed :: nat
  json_module_total :: nat
  json_course_completed :: nat
  json_course_total :: nat
  json_message :: message

datatype flash = Cart_empty | Order_placed pk

text \<open>
  What a view answers: a \<^verbatim>\<open>JsonResponse\<close> with its status, the \<^verbatim>\<open>Http404\<close> raised
  by \<^verbatim>\<open>get_object_or_404\<close>, a redirect to a named URL with its flash message, or the
  refusal of \<^verbatim>\<open>LoginRequiredMixin\<close> (\<^verbatim>\<open>handle_no_permission\<close>, which belongs to the
  framework: a redirect to the login page unless \<^verbatim>\<open>raise_exception\<close> is set).
\<close>

datatype response =
    JsonError nat error_text
  | JsonSuccess toggle_json
  | Http404
  | Redirect string flash
  | Handle_no_permission

definition enrolled :: "db \<Rightarrow> pk \<Rightarrow> pk \<Rightarrow> bool" where
  "enrolled s u c =
     (\<exists>e \<in> set (enrollment_tbl s). enrollment_user e = u \<and> enrollment_course e = c)"

text \<open>
  \<^verbatim>\<open>Progress.objects.get_or_create(user=..., lesson=..., defaults={'completed': completed})\<close>:
  the row found, or a new one, saved; with the flag \<^verbatim>\<open>created\<close> and the table.
\<close>

definition get_or_create ::
  "datetime \<Rightarrow> pk \<Rightarrow> pk \<Rightarrow> bool \<Rightarrow> progress list \<Rightarrow> progress \<times> bool \<times> progress list" where
  "get_or_create now u l dflt tbl =
     (case get_progress tbl u l of
        Some p \<Rightarrow> (p, False, tbl)
      | None \<Rightarrow>
          (let p = save now \<lparr>progress_user = u, progress_lesson = l,
                              completed = dflt, completed_at = None\<rparr>
           in (p, True, insert_progress p tbl)))"

text \<open>
  The part of \<^verbatim>\<open>post\<close> from line 1004 on, for an enrolled user and a lesson found:
  \<^verbatim>\<open>
  progress, created = Progress.objects.get_or_create(...)
  if not created:
      progress.completed = completed
      progress.save()
  \<close>
  It returns the object \<^verbatim>\<open>progress\<close> and the table.
\<close>

definition toggle :: "datetime \<Rightarrow> pk \<Rightarrow> pk \<Rightarrow> bool \<Rightarrow> progress list \<Rightarrow> progress \<times> progress list" where
  "toggle now u l c tbl =
     (case get_or_create now u l c tbl of
        (p, created, tbl1) \<Rightarrow>
          if \<not> created
          then (let p1 = save now (p\<lparr>completed := c\<rparr>) in (p1, update_progress p1 tbl1))
          else (p, tbl1))"

definition payload :: "db \<Rightarrow> pk \<Rightarrow> lesson \<Rightarrow> progress \<Rightarrow> bool \<Rightarrow> toggle_json" where
  "payload s u l p c =
     (let m = module_pk (lesson_module l); crs = module_course (lesson_module l)
      in \<lparr>json_completed = completed p,
          json_completed_at = completed_at p,
          json_module_progress = percentage (module_completed s u m) (module_total s m),
          json_course_progress = percentage (course_completed s u crs) (course_total s crs),
          json_module_completed = module_completed s u m,
          json_module_total = module_total s m,
          json_course_completed = course_completed s u crs,
          json_course_total = course_total s crs,
          json_message = (if c then Marked_completed else Marked_not_completed)\<rparr>)"

text \<open>
  \<^verbatim>\<open>post\<close>, in the order of its checks: the missing id (400), the lesson
  (\<^verbatim>\<open>get_object_or_404\<close>), the user (403), the enrollment (403), then the toggle
  and the roll-ups. An \<^verbatim>\<open>AnonymousUser\<close> is the user that is not authenticated.
\<close>

definition post :: "datetime \<Rightarrow> request \<Rightarrow> db \<Rightarrow> response \<times> db" where
  "post now req s =
     (let c = (post_completed req = Some ''true'')
      in case post_lesson_id req of
           None \<Rightarrow> (JsonError 400 Lesson_id_missing, s)
         | Some k \<Rightarrow>
             (case get_lesson s k of
                None \<Rightarrow> (Http404, s)
              | Some l \<Rightarrow>
                  (case request_user req of
                     AnonymousUser \<Rightarrow> (JsonError 403 Authorization_required, s)
                   | User u \<Rightarrow>
                       if \<not> enrolled s u (module_course (lesson_module l))
                       then (JsonError 403 Not_enrolled, s)
                       else
                         (case toggle now u (lesson_pk l) c (progress_tbl s) of
                            (p, tbl) \<Rightarrow>
                              (let s1 = s\<lparr>progress_tbl := tbl\<rparr>
                               in (JsonSuccess (payload s1 u l p c), s1))))))"

text \<open>
  \<^verbatim>\<open>dispatch\<close>: the view is a \<^verbatim>\<open>LoginRequiredMixin\<close>, whose \<^verbatim>\<open>dispatch\<close> answers a
  user that is not authenticated before \<^verbatim>\<open>post\<close> runs.
\<close>

definition dispatch :: "datetime \<Rightarrow> request \<Rightarrow> db \<Rightarrow> response \<times> db" where
  "dispatch now req s =
     (case request_user req of
        AnonymousUser \<Rightarrow> (Handle_no_permission, s)
      | User u \<Rightarrow> post now req s)"

section \<open>Checkout (views.py, lines 809 to 846)\<close>

text \<open>\<^verbatim>\<open>Course.objects.filter(id__in=cart_ids, is_published=True)\<close>\<close>

definition get_cart_courses :: "db \<Rightarrow> course list" where
  "get_cart_courses s =
     [c \<leftarrow> course_tbl s. course_pk c \<in> set (session_cart s) \<and> course_is_published c]"

text \<open>The key the database gives a new row: above every key of the table.\<close>

definition next_pk :: "pk list \<Rightarrow> pk" where
  "next_pk ks = Suc (fold max ks 0)"

text \<open>\<^verbatim>\<open>Order.objects.create(user=request.user, status='paid')\<close>\<close>

definition create_order :: "pk \<Rightarrow> db \<Rightarrow> order_row \<times> db" where
  "create_order u s =
     (let ord = \<lparr>order_pk = next_pk (map order_pk (order_tbl s)), order_user = u, status = Paid\<rparr>
      in (ord, s\<lparr>order_tbl := order_tbl s @ [ord]\<rparr>))"

text \<open>
  \<^verbatim>\<open>OrderItem.objects.create(order=order, course=course, price=0 if course.is_free else course.price)\<close>
\<close>

definition create_order_item :: "pk \<Rightarrow> course \<Rightarrow> db \<Rightarrow> db" where
  "create_order_item ord c s =
     s\<lparr>order_item_tbl := order_item_tbl s @
          [\<lparr>item_order = ord, item_course = course_pk c,
            item_price = (if is_free c then 0 else price c)\<rparr>]\<rparr>"

text \<open>\<^verbatim>\<open>Enrollment.objects.get_or_create(user=request.user, course=course)\<close>\<close>

definition enrollment_get_or_create :: "pk \<Rightarrow> pk \<Rightarrow> db \<Rightarrow> db" where
  "enrollment_get_or_create u c s =
     (if enrolled s u c then s
      else s\<lparr>enrollment_tbl := enrollment_tbl s @ [\<lparr>enrollment_user = u, enrollment_course = c\<rparr>]\<rparr>)"

text \<open>The loop \<^verbatim>\<open>for course in courses\<close> of \<^verbatim>\<open>CheckoutView.post\<close>.\<close>

fun checkout_loop :: "pk \<Rightarrow> pk \<Rightarrow> course list \<Rightarrow> db \<Rightarrow> db" where
  "checkout_loop u ord [] s = s"
| "checkout_loop u ord (c # cs) s =
     checkout_loop u ord cs (enrollment_get_or_create u (course_pk c) (create_order_item ord c s))"

text \<open>
  \<^verbatim>\<open>CheckoutView.post\<close> for the logged-in user \<open>u\<close>: with no course to buy it warns
  and goes back to the cart; otherwise it creates the order, its items and the
  enrollments, and empties the cart.
\<close>

definition checkout_post :: "pk \<Rightarrow> db \<Rightarrow> response \<times> db" where
  "checkout_post u s =
     (let courses = get_cart_courses s
      in if courses = [] then (Redirect ''cart'' Cart_empty, s)
         else
           (case create_order u s of
              (ord, s1) \<Rightarrow>
                (let s2 = checkout_loop u (order_pk ord) courses s1;
                     s3 = s2\<lparr>session_cart := []\<rparr>
                 in (Redirect ''orders_history'' (Order_placed (order_pk ord)), s3))))"

text \<open>\<^verbatim>\<open>CheckoutView\<close> is a \<^verbatim>\<open>LoginRequiredMixin\<close> as well.\<close>

definition checkout_dispatch :: "user \<Rightarrow> db \<Rightarrow> response \<times> db" where
  "checkout_dispatch usr s =
     (case usr of AnonymousUser \<Rightarrow> (Handle_no_permission, s) | User u \<Rightarrow> checkout_post u s)"

text \<open>
  The states the two views reach from a database with no progress row yet.
\<close>

inductive reachable :: "db \<Rightarrow> bool" where
  initial: "progress_tbl s = [] \<Longrightarrow> reachable s"
| toggled: "reachable s \<Longrightarrow> reachable (snd (dispatch now req s))"
| checked_out: "reachable s \<Longrightarrow> reachable (snd (checkout_dispatch usr s))"

text \<open>The invariant of a progress row: a date exactly when it is completed.\<close>

definition dated_iff_completed :: "progress \<Rightarrow> bool" where
  "dated_iff_completed p = ((completed_at p \<noteq> None) = completed p)"

section \<open>Sample data\<close>

text \<open>
  A course with one module and one lesson; user 1 is enrolled in it, user 2 is not,
  and nobody has a progress row yet.
\<close>

definition demo_db :: db where
  "demo_db =
     \<lparr>course_tbl = [],
      lesson_tbl = [\<lparr>lesson_pk = 1, lesson_module = \<lparr>module_pk = 1, module_course = 1\<rparr>,
                     lesson_is_published = True\<rparr>],
      enrollment_tbl = [\<lparr>enrollment_user = 1, enrollment_course = 1\<rparr>],
      progress_tbl = [], order_tbl = [], order_item_tbl = [], session_cart = []\<rparr>"

definition demo_request :: "user \<Rightarrow> pk \<Rightarrow> string \<Rightarrow> request" where
  "demo_request usr k c = \<lparr>request_user = usr, post_lesson_id = Some k, post_completed = Some c\<rparr>"

text \<open>
  A shop with a paid course (1), a free course (2) and an unpublished course (3). The
  cart of user 1, who is enrolled in course 2 already, holds all three and the key 9
  of a course that is gone.
\<close>

definition demo_shop :: db where
  "demo_shop =
     \<lparr>course_tbl =
        [\<lparr>course_pk = 1, price = 150000, is_free = False, course_is_published = True\<rparr>,
         \<lparr>course_pk = 2, price = 99900, is_free = True, course_is_published = True\<rparr>,
         \<lparr>course_pk = 3, price = 5000, is_free = False, course_is_published = False\<rparr>],
      lesson_tbl = [],
      enrollment_tbl = [\<lparr>enrollment_user = 1, enrollment_course = 2\<rparr>],
      progress_tbl = [], order_tbl = [], order_item_tbl = [], session_cart = [1, 2, 3, 9]\<rparr>"

text \<open>A cart whose only course has been unpublished since it was added.\<close>

definition stale_cart :: db where
  "stale_cart =
     \<lparr>course_tbl = [\<lparr>course_pk = 3, price = 5000, is_free = False, course_is_published = False\<rparr>],
      lesson_tbl = [], enrollment_tbl = [], progress_tbl = [], order_tbl = [],
      order_item_tbl = [], session_cart = [3]\<rparr>"

section \<open>Percentages: results\<close>

lemmas percentage_unfold =
  percentage_def py_int_def py_mul_def py_truediv_def nearest_double_def scale_def
  round_half_even_def Let_def bit_length.simps

lemma percentage_total_zero: "percentage n 0 = 0"
  by (simp add: percentage_def)

text \<open>One lesson of three completed gives 33.\<close>

lemma percentage_one_of_three: "percentage 1 3 = 33"
  by (simp add: percentage_unfold)

text \<open>Three lessons of four completed give 75.\<close>

lemma percentage_three_of_four: "percentage 3 4 = 75"
  by (simp add: percentage_unfold)

text \<open>
  The binary64 numbers behind the failing percentage: \<^verbatim>\<open>29 / 50\<close> is
  \<^verbatim>\<open>0x1.28f5c28f5c28fp-1\<close> and its product with 100 is \<^verbatim>\<open>0x1.cffffffffffffp+5\<close>.
\<close>

lemma py_truediv_29_50: "py_truediv 29 50 = (5224175567749775, - 53)"
  by (simp add: percentage_unfold)

lemma py_mul_29_50_100: "py_mul (5224175567749775, - 53) 100 = (8162774324609023, - 47)"
  by (simp add: percentage_unfold)

text \<open>
  C1. The claim: the percentage of every roll-up is \<open>floor (100 * completed / total)\<close>
  in exact integer arithmetic. The expression of the views does not compute in
  integers: at 29 completed lessons out of 50 the quotient is rounded to the
  binary64 number just below 0.58, the product to the one just below 58, and the
  truncation gives 57, while the exact floor is 58.
\<close>

theorem percentage_29_of_50:
  "percentage 29 50 = 57 \<and> (100 * 29) div 50 = (58::nat)"
  by (simp add: percentage_unfold)

section \<open>The progress ledger: results\<close>

subsection \<open>Saving a row\<close>

lemma save_user [simp]: "progress_user (save now p) = progress_user p"
  by (simp add: save_def)

lemma save_lesson [simp]: "progress_lesson (save now p) = progress_lesson p"
  by (simp add: save_def)

lemma save_completed [simp]: "completed (save now p) = completed p"
  by (simp add: save_def)

lemma save_completed_at:
  "completed_at (save now p) =
     (if completed p then (case completed_at p of None \<Rightarrow> Some now | Some x \<Rightarrow> Some x) else None)"
  by (cases "completed_at p") (simp_all add: save_def)

lemma save_dated: "dated_iff_completed (save now p)"
  by (simp add: dated_iff_completed_def save_completed_at split: option.splits)

lemma save_fixed: "completed p \<Longrightarrow> completed_at p \<noteq> None \<Longrightarrow> save now p = p"
  by (simp add: save_def)

subsection \<open>Reading and writing the table\<close>

lemma get_progress_is_row: "get_progress tbl u l = Some p \<Longrightarrow> is_row u l p"
  by (auto simp: get_progress_def find_Some_iff)

lemma get_progress_mem: "get_progress tbl u l = Some p \<Longrightarrow> p \<in> set tbl"
  by (auto simp: get_progress_def find_Some_iff)

lemma find_snoc:
  "find P (xs @ [x]) = (case find P xs of None \<Rightarrow> (if P x then Some x else None) | Some y \<Rightarrow> Some y)"
  by (induction xs) simp_all

lemma get_progress_insert:
  "get_progress tbl u l = None \<Longrightarrow> is_row u l p \<Longrightarrow> get_progress (insert_progress p tbl) u l = Some p"
  by (simp add: get_progress_def insert_progress_def find_snoc)

lemma get_progress_update:
  "get_progress tbl (progress_user p) (progress_lesson p) = Some q \<Longrightarrow>
   get_progress (update_progress p tbl) (progress_user p) (progress_lesson p) = Some p"
  by (induction tbl) (auto simp: get_progress_def is_row_def)

lemma update_progress_same:
  "get_progress tbl (progress_user p) (progress_lesson p) = Some p \<Longrightarrow> update_progress p tbl = tbl"
  by (induction tbl) (auto simp: get_progress_def)

lemma set_update_progress: "set (update_progress p tbl) \<subseteq> insert p (set tbl)"
  by (induction tbl) auto

subsection \<open>The toggle\<close>

lemma toggle_created:
  "get_progress tbl u l = None \<Longrightarrow>
   toggle now u l c tbl =
     (save now \<lparr>progress_user = u, progress_lesson = l, completed = c, completed_at = None\<rparr>,
      insert_progress
        (save now \<lparr>progress_user = u, progress_lesson = l, completed = c, completed_at = None\<rparr>) tbl)"
  by (simp add: toggle_def get_or_create_def Let_def)

lemma toggle_found:
  "get_progress tbl u l = Some p \<Longrightarrow>
   toggle now u l c tbl =
     (save now (p\<lparr>completed := c\<rparr>), update_progress (save now (p\<lparr>completed := c\<rparr>)) tbl)"
  by (simp add: toggle_def get_or_create_def Let_def)

lemma toggle_row:
  "get_progress (snd (toggle now u l c tbl)) u l = Some (fst (toggle now u l c tbl)) \<and>
   progress_user (fst (toggle now u l c tbl)) = u \<and>
   progress_lesson (fst (toggle now u l c tbl)) = l \<and>
   completed (fst (toggle now u l c tbl)) = c"
proof (cases "get_progress tbl u l")
  case None
  then show ?thesis
    by (simp add: toggle_created get_progress_insert is_row_def)
next
  case (Some p)
  have row: "progress_user p = u" "progress_lesson p = l"
    using get_progress_is_row [OF Some] by (simp_all add: is_row_def)
  let ?p = "save now (p\<lparr>completed := c\<rparr>)"
  have "get_progress tbl (progress_user ?p) (progress_lesson ?p) = Some p"
    using Some row by simp
  from get_progress_update [OF this] show ?thesis
    using Some row by (simp add: toggle_found)
qed

lemma toggle_completed_at:
  "completed_at (fst (toggle now u l c tbl)) =
     (if c then
        (case get_progress tbl u l of
           None \<Rightarrow> Some now
         | Some q \<Rightarrow> (case completed_at q of None \<Rightarrow> Some now | Some x \<Rightarrow> Some x))
      else None)"
  by (cases "get_progress tbl u l") (simp_all add: toggle_created toggle_found save_completed_at)

lemma toggle_dated: "dated_iff_completed (fst (toggle now u l c tbl))"
  by (cases "get_progress tbl u l") (simp_all add: toggle_created toggle_found save_dated)

lemma toggle_set:
  "set (snd (toggle now u l c tbl)) \<subseteq> insert (fst (toggle now u l c tbl)) (set tbl)"
  by (cases "get_progress tbl u l")
     (auto simp: toggle_created toggle_found insert_progress_def dest: subsetD [OF set_update_progress])

lemma toggle_true_again:
  "snd (toggle t2 u l True (snd (toggle t1 u l True tbl))) = snd (toggle t1 u l True tbl)"
proof -
  let ?p = "fst (toggle t1 u l True tbl)" and ?tbl = "snd (toggle t1 u l True tbl)"
  have got: "get_progress ?tbl u l = Some ?p" and row: "progress_user ?p = u" "progress_lesson ?p = l"
    and c: "completed ?p"
    using toggle_row [of t1 u l True tbl] by simp_all
  have "completed_at ?p \<noteq> None"
    by (simp add: toggle_completed_at split: option.splits)
  with c have fixed: "save t2 (?p\<lparr>completed := True\<rparr>) = ?p"
    by (simp add: save_fixed)
  have "update_progress ?p ?tbl = ?tbl"
    using got row by (simp add: update_progress_same)
  then show ?thesis
    by (simp add: toggle_found [OF got] fixed)
qed

subsection \<open>The view\<close>

lemma get_lesson_pk: "get_lesson s k = Some l \<Longrightarrow> lesson_pk l = k"
  by (auto simp: get_lesson_def find_Some_iff)

lemma get_lesson_progress_tbl [simp]: "get_lesson (s\<lparr>progress_tbl := tbl\<rparr>) k = get_lesson s k"
  by (simp add: get_lesson_def)

lemma enrolled_progress_tbl [simp]: "enrolled (s\<lparr>progress_tbl := tbl\<rparr>) u c = enrolled s u c"
  by (simp add: enrolled_def)

lemma post_success:
  assumes "request_user req = User u" "post_lesson_id req = Some k" "get_lesson s k = Some l"
    and "enrolled s u (module_course (lesson_module l))"
  shows "post now req s =
     (JsonSuccess
        (payload (s\<lparr>progress_tbl := snd (toggle now u k (post_completed req = Some ''true'') (progress_tbl s))\<rparr>)
           u l (fst (toggle now u k (post_completed req = Some ''true'') (progress_tbl s)))
           (post_completed req = Some ''true'')),
      s\<lparr>progress_tbl := snd (toggle now u k (post_completed req = Some ''true'') (progress_tbl s))\<rparr>)"
  using assms get_lesson_pk [OF assms(3)]
  by (simp add: post_def Let_def split: prod.splits)

lemma post_true_again:
  assumes "post_completed req = Some ''true''"
  shows "snd (post t2 req (snd (post t1 req s))) = snd (post t1 req s)"
proof (cases "\<exists>u k l. request_user req = User u \<and> post_lesson_id req = Some k \<and>
    get_lesson s k = Some l \<and> enrolled s u (module_course (lesson_module l))")
  case True
  then obtain u k l where h: "request_user req = User u" "post_lesson_id req = Some k"
    "get_lesson s k = Some l" "enrolled s u (module_course (lesson_module l))"
    by blast
  let ?s1 = "s\<lparr>progress_tbl := snd (toggle t1 u k True (progress_tbl s))\<rparr>"
  have one: "snd (post t1 req s) = ?s1"
    using post_success [OF h, of t1] assms by simp
  have "snd (post t2 req ?s1) = ?s1\<lparr>progress_tbl := snd (toggle t2 u k True (progress_tbl ?s1))\<rparr>"
    using post_success [of req u k ?s1 l t2] h assms by simp
  then show ?thesis
    by (simp add: one toggle_true_again)
next
  case False
  then have "snd (post t req s) = s" for t
    by (auto simp: post_def Let_def split: option.splits user.splits)
  then show ?thesis by simp
qed

subsection \<open>The invariant of the rows\<close>

lemma update_progress_dated:
  "list_all dated_iff_completed tbl \<Longrightarrow> dated_iff_completed p \<Longrightarrow>
   list_all dated_iff_completed (update_progress p tbl)"
  by (induction tbl) auto

lemma toggle_preserves_dated:
  "list_all dated_iff_completed tbl \<Longrightarrow> list_all dated_iff_completed (snd (toggle now u l c tbl))"
  by (cases "get_progress tbl u l")
     (simp_all add: toggle_created toggle_found insert_progress_def save_dated update_progress_dated)

lemma toggle_preserves_dated_pair:
  "toggle now u l c tbl = (p, tbl') \<Longrightarrow> list_all dated_iff_completed tbl \<Longrightarrow>
   list_all dated_iff_completed tbl'"
  using toggle_preserves_dated [of tbl now u l c] by simp

lemma post_preserves_dated:
  "list_all dated_iff_completed (progress_tbl s) \<Longrightarrow>
   list_all dated_iff_completed (progress_tbl (snd (post now req s)))"
  by (auto simp: post_def Let_def split: option.splits user.splits prod.splits
      dest: toggle_preserves_dated_pair)

subsection \<open>Claims about the toggle\<close>

lemmas demo_unfold =
  demo_db_def demo_request_def post_def dispatch_def toggle_def get_or_create_def get_progress_def
  get_lesson_def enrolled_def save_def insert_progress_def is_row_def Let_def

lemma checkout_loop_progress_tbl [simp]:
  "progress_tbl (checkout_loop u ord cs s) = progress_tbl s"
  by (induction cs arbitrary: s) (simp_all add: enrollment_get_or_create_def create_order_item_def)

lemma checkout_post_progress_tbl: "progress_tbl (snd (checkout_post u s)) = progress_tbl s"
  by (simp add: checkout_post_def create_order_def Let_def)

lemma checkout_dispatch_progress_tbl: "progress_tbl (snd (checkout_dispatch usr s)) = progress_tbl s"
  by (cases usr) (simp_all add: checkout_dispatch_def checkout_post_progress_tbl)

lemma dispatch_preserves_dated:
  "list_all dated_iff_completed (progress_tbl s) \<Longrightarrow>
   list_all dated_iff_completed (progress_tbl (snd (dispatch now req s)))"
  by (cases "request_user req") (simp_all add: dispatch_def post_preserves_dated)

lemma reachable_dated: "reachable s \<Longrightarrow> list_all dated_iff_completed (progress_tbl s)"
  by (induction rule: reachable.induct)
     (simp_all add: dispatch_preserves_dated checkout_dispatch_progress_tbl)

text \<open>
  C2. Marking a lesson completed twice in a row leaves the state that marking it once
  leaves: the second call finds the row completed and dated, \<open>save\<close> keeps the
  date, and the row written back is the row read. In particular \<open>completed_at\<close>
  is the time of the first call.
\<close>

theorem toggle_true_twice_keeps_completed_at:
  "post_completed req = Some ''true'' \<Longrightarrow>
   snd (post t2 req (snd (post t1 req s))) = snd (post t1 req s)"
  by (rule post_true_again)

theorem toggle_true_twice_keeps_completed_at_witness:
  "post_completed (demo_request (User 1) 1 ''true'') = Some ''true'' \<and>
   map_option completed_at
     (get_progress
        (progress_tbl (snd (post 20 (demo_request (User 1) 1 ''true'')
                              (snd (post 10 (demo_request (User 1) 1 ''true'') demo_db))))) 1 1)
   = Some (Some 10)"
proof -
  have h: "post_completed (demo_request (User 1) 1 ''true'') = Some ''true''"
    by (simp add: demo_request_def)
  have "map_option completed_at
     (get_progress (progress_tbl (snd (post 10 (demo_request (User 1) 1 ''true'') demo_db))) 1 1)
     = Some (Some 10)"
    by (simp add: demo_unfold)
  with h toggle_true_twice_keeps_completed_at [OF h, of 20 10 demo_db] show ?thesis
    by simp
qed

text \<open>
  C3. In every state reached from a database without progress rows by the two views,
  every progress row has a date exactly when it is completed. Both paths of the
  toggle go through \<open>save\<close>, which establishes this for the row it writes
  (\<open>toggle_dated\<close>), and no other row changes.
\<close>

theorem completed_at_iff_completed:
  "reachable s \<Longrightarrow> p \<in> set (progress_tbl s) \<Longrightarrow> (completed_at p \<noteq> None) = completed p"
  using reachable_dated [of s] by (simp add: list_all_iff dated_iff_completed_def)

theorem completed_at_iff_completed_witness:
  "reachable (snd (dispatch 10 (demo_request (User 1) 1 ''true'') demo_db)) \<and>
   \<lparr>progress_user = 1, progress_lesson = 1, completed = True, completed_at = Some 10\<rparr>
     \<in> set (progress_tbl (snd (dispatch 10 (demo_request (User 1) 1 ''true'') demo_db))) \<and>
   (completed_at \<lparr>progress_user = 1, progress_lesson = 1, completed = True, completed_at = Some 10\<rparr>
      \<noteq> None) =
   completed \<lparr>progress_user = 1, progress_lesson = 1, completed = True, completed_at = Some (10::nat)\<rparr>"
proof -
  have r: "reachable (snd (dispatch 10 (demo_request (User 1) 1 ''true'') demo_db))"
    by (rule reachable.toggled, rule reachable.initial) (simp add: demo_db_def)
  have m: "\<lparr>progress_user = 1, progress_lesson = 1, completed = True, completed_at = Some 10\<rparr>
     \<in> set (progress_tbl (snd (dispatch 10 (demo_request (User 1) 1 ''true'') demo_db)))"
    by (simp add: demo_unfold)
  from completed_at_iff_completed [OF r m] r m show ?thesis
    by blast
qed

text \<open>
  C4. For an enrolled user and an existing lesson, marking the lesson completed and
  then not completed leaves the row of the user and the lesson with
  \<open>completed = False\<close> and \<open>completed_at = None\<close>. The second request may carry any
  value of \<^verbatim>\<open>completed\<close> but \<^verbatim>\<open>'true'\<close>.
\<close>

theorem toggle_true_then_false_clears:
  assumes "request_user r1 = User u" "post_lesson_id r1 = Some k" "post_completed r1 = Some ''true''"
    and "request_user r2 = User u" "post_lesson_id r2 = Some k" "post_completed r2 \<noteq> Some ''true''"
    and "get_lesson s k = Some l" "enrolled s u (module_course (lesson_module l))"
  shows "get_progress (progress_tbl (snd (post t2 r2 (snd (post t1 r1 s))))) u k =
     Some \<lparr>progress_user = u, progress_lesson = k, completed = False, completed_at = None\<rparr>"
proof -
  let ?s1 = "s\<lparr>progress_tbl := snd (toggle t1 u k True (progress_tbl s))\<rparr>"
  have one: "snd (post t1 r1 s) = ?s1"
    using post_success [OF assms(1,2,7,8), of t1] assms(3) by simp
  have two: "progress_tbl (snd (post t2 r2 ?s1)) = snd (toggle t2 u k False (progress_tbl ?s1))"
    using post_success [of r2 u k ?s1 l t2] assms(4-8) by simp
  let ?p = "fst (toggle t2 u k False (progress_tbl ?s1))"
  have "?p = \<lparr>progress_user = u, progress_lesson = k, completed = False, completed_at = None\<rparr>"
    using toggle_row [of t2 u k False "progress_tbl ?s1"]
      toggle_completed_at [of t2 u k False "progress_tbl ?s1"]
    by (cases ?p) simp
  then show ?thesis
    using toggle_row [of t2 u k False "progress_tbl ?s1"] by (simp add: one two)
qed

theorem toggle_true_then_false_clears_witness:
  "get_progress
     (progress_tbl (snd (post 20 (demo_request (User 1) 1 ''false'')
                           (snd (post 10 (demo_request (User 1) 1 ''true'') demo_db))))) 1 1 =
   Some \<lparr>progress_user = 1, progress_lesson = 1, completed = False, completed_at = None\<rparr> \<and>
   get_progress (progress_tbl (snd (post 10 (demo_request (User 1) 1 ''true'') demo_db))) 1 1 =
   Some \<lparr>progress_user = 1, progress_lesson = 1, completed = True, completed_at = Some 10\<rparr>"
proof -
  have l: "get_lesson demo_db 1 =
      Some \<lparr>lesson_pk = 1, lesson_module = \<lparr>module_pk = 1, module_course = 1\<rparr>,
            lesson_is_published = True\<rparr>"
    by (simp add: demo_db_def get_lesson_def)
  have e: "enrolled demo_db 1
      (module_course (lesson_module \<lparr>lesson_pk = 1, lesson_module = \<lparr>module_pk = 1, module_course = 1\<rparr>,
            lesson_is_published = True\<rparr>))"
    by (simp add: demo_db_def enrolled_def)
  have "get_progress
     (progress_tbl (snd (post 20 (demo_request (User 1) 1 ''false'')
                           (snd (post 10 (demo_request (User 1) 1 ''true'') demo_db))))) 1 1 =
   Some \<lparr>progress_user = 1, progress_lesson = 1, completed = False, completed_at = None\<rparr>"
    by (rule toggle_true_then_false_clears [OF _ _ _ _ _ _ l e]) (simp_all add: demo_request_def)
  moreover have "get_progress (progress_tbl (snd (post 10 (demo_request (User 1) 1 ''true'') demo_db))) 1 1 =
   Some \<lparr>progress_user = 1, progress_lesson = 1, completed = True, completed_at = Some 10\<rparr>"
    by (simp add: demo_unfold)
  ultimately show ?thesis by simp
qed

end
